theory Spec2Isabelle
  imports Main
begin

section \<open>Python strings\<close>

text \<open>
  Column and table names are Python \<open>str\<close> values, modelled as HOL strings. The three
  string operations the migration uses are \<open>str.lower\<close>, \<open>str.isalnum\<close> and the
  substring test \<open>a in b\<close>. They are modelled on ASCII: a character outside ASCII is
  left unchanged by \<open>lower_char\<close> and is not alphanumeric. SQLite compares identifiers
  without regard to ASCII case as well.
\<close>

definition is_upper :: "char \<Rightarrow> bool" where
  "is_upper ch = (65 \<le> (of_char ch :: nat) \<and> (of_char ch :: nat) \<le> 90)"

definition is_lower :: "char \<Rightarrow> bool" where
  "is_lower ch = (97 \<le> (of_char ch :: nat) \<and> (of_char ch :: nat) \<le> 122)"

definition is_digit :: "char \<Rightarrow> bool" where
  "is_digit ch = (48 \<le> (of_char ch :: nat) \<and> (of_char ch :: nat) \<le> 57)"

definition isalnum :: "char \<Rightarrow> bool" where
  "isalnum ch = (is_upper ch \<or> is_lower ch \<or> is_digit ch)"

definition lower_char :: "char \<Rightarrow> char" where
  "lower_char ch = (if is_upper ch then char_of ((of_char ch :: nat) + 32) else ch)"

definition lower :: "string \<Rightarrow> string" where
  "lower s = map lower_char s"

text \<open>\<open>normalize\<close> of \<open>migrate_table_schema\<close>:
  \<^verbatim>\<open>''.join(ch.lower() for ch in str(col) if ch.isalnum())\<close>.\<close>

definition normalize :: "string \<Rightarrow> string" where
  "normalize col = map lower_char (filter isalnum col)"

fun starts_with :: "string \<Rightarrow> string \<Rightarrow> bool" where
  "starts_with [] b = True"
| "starts_with (x # a) [] = False"
| "starts_with (x # a) (y # b) = (x = y \<and> starts_with a b)"

text \<open>Python's \<open>a in b\<close> on strings: \<open>a\<close> occurs in \<open>b\<close> as a contiguous block.\<close>

fun str_in :: "string \<Rightarrow> string \<Rightarrow> bool" where
  "str_in a [] = (a = [])"
| "str_in a (y # b) = (starts_with a (y # b) \<or> str_in a b)"

section \<open>Python dictionaries\<close>

text \<open>
  A dictionary keeps its keys in the order of their first insertion; assigning to a key
  that is present replaces the value where it stands. A dictionary comprehension
  \<^verbatim>\<open>{f(col): col for col in xs}\<close> assigns in the order of \<open>xs\<close>, so the last column with
  a given key wins and the key stays at the place of the first.
\<close>

fun dict_set :: "'k \<Rightarrow> 'v \<Rightarrow> ('k \<times> 'v) list \<Rightarrow> ('k \<times> 'v) list" where
  "dict_set k v [] = [(k, v)]"
| "dict_set k v ((k', v') # d) = (if k' = k then (k, v) # d else (k', v') # dict_set k v d)"

definition dict_comp :: "('v \<Rightarrow> 'k) \<Rightarrow> 'v list \<Rightarrow> ('k \<times> 'v) list" where
  "dict_comp f xs = foldl (\<lambda>d col. dict_set (f col) col d) [] xs"

definition dict_get :: "('k \<times> 'v) list \<Rightarrow> 'k \<Rightarrow> 'v option" where
  "dict_get d k = map_of d k"

section \<open>The database engine\<close>

text \<open>
  The program talks to SQLite through SQL text. The part of SQLite it relies on is
  modelled here: tables with named, typed columns and rows of values, the statements the
  program sends, and transactions. Values are NULL, integers and text (the program never
  stores a float or a blob). Not modelled: column defaults, the hidden rowid of a table
  without an integer primary key, the 64-bit limit of an id, and SQL keywords used as
  names (the program interpolates names unquoted; every name of its schema registry is a
  plain identifier).
\<close>

datatype val = Null | IntV int | TextV string

record column =
  cname :: string
  ctype :: string
  cpk :: bool
  cnotnull :: bool

record table =
  tcols :: "column list"
  trows :: "val list list"
  tseq :: int

text \<open>Tables are keyed by their name in lower case: SQLite resolves names without
  regard to case.\<close>

type_synonym db = "string \<Rightarrow> table option"

text \<open>
  Two things are fixed by the platform and not by the program, so the model takes them
  as parameters. \<open>affinity\<close> is SQLite's conversion of a value on its way into a column
  of a declared type (text \<open>'12'\<close> stored into an INTEGER column becomes the integer 12);
  it never changes NULL. \<open>set_order\<close> is the order in which Python enumerates a set of
  strings (\<open>list(existing)\<close>), which depends on string hashing.
\<close>

record platform =
  affinity :: "string \<Rightarrow> val \<Rightarrow> val"
  set_order :: "string list \<Rightarrow> string list"


datatype sql_error =
    NoSuchTable | TableExists | NoSuchColumn | DuplicateColumn
  | ConstraintFailed | DatatypeMismatch | SyntaxError | BindingCount | TransactionState

datatype sel = SelId | SelQuoted string | SelNull

datatype stmt =
    PragmaTableInfo string
  | PragmaForeignKeys bool
  | Begin
  | Commit
  | Rollback
  | AlterAddColumn string string string
  | AlterRename string string
  | CreateTable string "column list"
  | CreateTableIfNotExists string "column list"
  | InsertSelect string "string list" "sel list" string
  | DropTable string
  | SelectAll string
  | InsertValues string "string list" "val list"
  | DeleteById string val

fun col_index :: "string \<Rightarrow> column list \<Rightarrow> nat option" where
  "col_index n [] = None"
| "col_index n (c # cs) =
     (if lower (cname c) = lower n then Some 0 else map_option Suc (col_index n cs))"

definition cell :: "val list \<Rightarrow> nat \<Rightarrow> val" where
  "cell r i = (if i < length r then r ! i else Null)"

fun collect :: "(sql_error + 'a) list \<Rightarrow> sql_error + 'a list" where
  "collect [] = Inr []"
| "collect (x # xs) =
     (case x of Inl e \<Rightarrow> Inl e
      | Inr v \<Rightarrow> (case collect xs of Inl e \<Rightarrow> Inl e | Inr vs \<Rightarrow> Inr (v # vs)))"

subsection \<open>Inserting a row\<close>

fun max_id :: "nat \<Rightarrow> val list list \<Rightarrow> int" where
  "max_id i [] = 0"
| "max_id i (r # rs) = (case cell r i of IntV n \<Rightarrow> max n (max_id i rs) | _ \<Rightarrow> max_id i rs)"

text \<open>The id AUTOINCREMENT generates: one more than the largest id the table has or
  ever had.\<close>

definition next_rowid :: "table \<Rightarrow> nat \<Rightarrow> int" where
  "next_rowid tb i = max (tseq tb) (max_id i (trows tb)) + 1"

definition supplied :: "column \<Rightarrow> string list \<Rightarrow> val list \<Rightarrow> val option" where
  "supplied c names vals = map_of (zip (map lower names) vals) (lower (cname c))"

text \<open>
  The value a new row gets in the column at position \<open>i\<close>: the supplied value after the
  column's affinity, NULL when none is supplied. An integer primary key takes a
  generated id in place of NULL, refuses text (datatype mismatch) and refuses an id that
  a row already has. A NOT NULL column refuses NULL.
\<close>

definition column_value ::
  "platform \<Rightarrow> table \<Rightarrow> string list \<Rightarrow> val list \<Rightarrow> nat \<Rightarrow> column \<Rightarrow> sql_error + val" where
  "column_value P tb names vals i c =
     (let v = (case supplied c names vals of Some x \<Rightarrow> affinity P (ctype c) x | None \<Rightarrow> Null)
      in if cpk c then
           (case v of
              Null \<Rightarrow> Inr (IntV (next_rowid tb i))
            | IntV n \<Rightarrow> if IntV n \<in> set (map (\<lambda>r. cell r i) (trows tb))
                        then Inl ConstraintFailed else Inr (IntV n)
            | TextV s \<Rightarrow> Inl DatatypeMismatch)
         else if cnotnull c \<and> v = Null then Inl ConstraintFailed
         else Inr v)"

definition row_seq :: "table \<Rightarrow> val list \<Rightarrow> int" where
  "row_seq tb r =
     fold (\<lambda>(c, v) s. if cpk c then (case v of IntV n \<Rightarrow> max s n | _ \<Rightarrow> s) else s)
       (zip (tcols tb) r) (tseq tb)"

definition insert_row :: "platform \<Rightarrow> string list \<Rightarrow> val list \<Rightarrow> table \<Rightarrow> sql_error + table" where
  "insert_row P names vals tb =
     (if length names \<noteq> length vals then Inl BindingCount
      else if \<exists>n \<in> set names. col_index n (tcols tb) = None then Inl NoSuchColumn
      else case collect (map (\<lambda>(i, c). column_value P tb names vals i c)
                            (zip [0 ..< length (tcols tb)] (tcols tb))) of
             Inl e \<Rightarrow> Inl e
           | Inr r \<Rightarrow> Inr (tb\<lparr>trows := trows tb @ [r], tseq := row_seq tb r\<rparr>))"

subsection \<open>INSERT ... SELECT\<close>

text \<open>
  A select expression is the unquoted name \<open>id\<close>, a name in double quotes, or NULL. The
  program writes a quoted name as \<^verbatim>\<open>f'"{mapped}"'\<close>; a name that itself holds a double
  quote breaks the quoting and is modelled as a syntax error.
\<close>

definition sel_ok :: "column list \<Rightarrow> sel \<Rightarrow> sql_error option" where
  "sel_ok cs e =
     (case e of
        SelNull \<Rightarrow> None
      | SelId \<Rightarrow> (if col_index ''id'' cs = None then Some NoSuchColumn else None)
      | SelQuoted n \<Rightarrow>
          (if CHR 0x22 \<in> set n then Some SyntaxError
           else if col_index n cs = None then Some NoSuchColumn else None))"

definition sel_value :: "column list \<Rightarrow> val list \<Rightarrow> sel \<Rightarrow> val" where
  "sel_value cs r e =
     (case e of
        SelNull \<Rightarrow> Null
      | SelId \<Rightarrow> (case col_index ''id'' cs of Some i \<Rightarrow> cell r i | None \<Rightarrow> Null)
      | SelQuoted n \<Rightarrow> (case col_index n cs of Some i \<Rightarrow> cell r i | None \<Rightarrow> Null))"

fun insert_rows ::
  "platform \<Rightarrow> string list \<Rightarrow> val list list \<Rightarrow> table \<Rightarrow> sql_error + table" where
  "insert_rows P names [] tb = Inr tb"
| "insert_rows P names (vals # rest) tb =
     (case insert_row P names vals tb of
        Inl e \<Rightarrow> Inl e
      | Inr tb' \<Rightarrow> insert_rows P names rest tb')"

definition first_error :: "sql_error option list \<Rightarrow> sql_error option" where
  "first_error es = (case filter (\<lambda>e. e \<noteq> None) es of [] \<Rightarrow> None | e # _ \<Rightarrow> e)"

definition insert_select ::
  "platform \<Rightarrow> string list \<Rightarrow> sel list \<Rightarrow> table \<Rightarrow> table \<Rightarrow> sql_error + table" where
  "insert_select P names sels src dst =
     (case first_error (map (sel_ok (tcols src)) sels) of
        Some e \<Rightarrow> Inl e
      | None \<Rightarrow>
          insert_rows P names (map (\<lambda>r. map (sel_value (tcols src) r) sels) (trows src)) dst)"

subsection \<open>Statements\<close>

text \<open>SQL equality: NULL equals nothing, and an integer never equals a text.\<close>

definition sql_eq :: "val \<Rightarrow> val \<Rightarrow> bool" where
  "sql_eq a b = (a \<noteq> Null \<and> a = b)"

definition new_table :: "column list \<Rightarrow> table" where
  "new_table cs = \<lparr>tcols = cs, trows = [], tseq = 0\<rparr>"

definition with_table :: "db \<Rightarrow> string \<Rightarrow> (table \<Rightarrow> sql_error + db) \<Rightarrow> sql_error + db" where
  "with_table d t f = (case d (lower t) of None \<Rightarrow> Inl NoSuchTable | Some tb \<Rightarrow> f tb)"

fun run_stmt :: "platform \<Rightarrow> stmt \<Rightarrow> db \<Rightarrow> sql_error + db" where
  "run_stmt P (PragmaTableInfo t) d = Inr d"
| "run_stmt P (PragmaForeignKeys b) d = Inr d"
| "run_stmt P Begin d = Inr d"
| "run_stmt P Commit d = Inr d"
| "run_stmt P Rollback d = Inr d"
| "run_stmt P (AlterAddColumn t n ty) d =
     with_table d t (\<lambda>tb.
       if col_index n (tcols tb) \<noteq> None then Inl DuplicateColumn
       else Inr (d(lower t \<mapsto>
              tb\<lparr>tcols := tcols tb @ [\<lparr>cname = n, ctype = ty, cpk = False, cnotnull = False\<rparr>],
                 trows := map (\<lambda>r. r @ [Null]) (trows tb)\<rparr>)))"
| "run_stmt P (AlterRename t t') d =
     with_table d t (\<lambda>tb.
       if d (lower t') \<noteq> None then Inl TableExists
       else Inr ((d(lower t := None))(lower t' \<mapsto> tb)))"
| "run_stmt P (CreateTable t cs) d =
     (if d (lower t) \<noteq> None then Inl TableExists
      else if \<not> distinct (map (\<lambda>c. lower (cname c)) cs) then Inl DuplicateColumn
      else Inr (d(lower t \<mapsto> new_table cs)))"
| "run_stmt P (CreateTableIfNotExists t cs) d =
     (if d (lower t) \<noteq> None then Inr d
      else if \<not> distinct (map (\<lambda>c. lower (cname c)) cs) then Inl DuplicateColumn
      else Inr (d(lower t \<mapsto> new_table cs)))"
| "run_stmt P (InsertSelect t names sels src) d =
     with_table d src (\<lambda>stb. with_table d t (\<lambda>tb.
       case insert_select P names sels stb tb of
         Inl e \<Rightarrow> Inl e
       | Inr tb' \<Rightarrow> Inr (d(lower t \<mapsto> tb'))))"
| "run_stmt P (DropTable t) d = with_table d t (\<lambda>tb. Inr (d(lower t := None)))"
| "run_stmt P (SelectAll t) d = with_table d t (\<lambda>tb. Inr d)"
| "run_stmt P (InsertValues t names vals) d =
     with_table d t (\<lambda>tb.
       case insert_row P names vals tb of
         Inl e \<Rightarrow> Inl e
       | Inr tb' \<Rightarrow> Inr (d(lower t \<mapsto> tb')))"
| "run_stmt P (DeleteById t rid) d =
     with_table d t (\<lambda>tb.
       case col_index ''id'' (tcols tb) of
         None \<Rightarrow> Inl NoSuchColumn
       | Some i \<Rightarrow>
           Inr (d(lower t \<mapsto>
             tb\<lparr>trows := filter (\<lambda>r. \<not> sql_eq (cell r i) (affinity P (ctype (tcols tb ! i)) rid))
                            (trows tb)\<rparr>)))"

section \<open>Connections\<close>

text \<open>
  Every method of \<open>DatabaseTracker\<close> opens its own connection to the database file,
  works through a cursor and closes the connection. \<open>store\<close> is the content of the file;
  \<open>trace\<close> lists, oldest first, every statement a cursor has been given (whether or not
  it succeeded), so that a theorem can say what a method executed.
\<close>

record world =
  store :: db
  trace :: "stmt list"

text \<open>
  A connection works on \<open>work\<close>; \<open>disk\<close> is what the file holds. Outside a transaction
  a statement takes effect on the file at once; inside one the file changes at COMMIT, and
  ROLLBACK or closing the connection drops what was not committed.
\<close>

record conn =
  disk :: db
  work :: db
  in_txn :: bool
  sent :: "stmt list"

definition connect :: "world \<Rightarrow> conn" where
  "connect w = \<lparr>disk = store w, work = store w, in_txn = False, sent = trace w\<rparr>"

definition close :: "conn \<Rightarrow> world" where
  "close c = \<lparr>store = disk c, trace = sent c\<rparr>"

text \<open>Python's sqlite3 module opens a transaction by itself before a statement that
  changes rows.\<close>

fun is_dml :: "stmt \<Rightarrow> bool" where
  "is_dml (InsertSelect t names sels src) = True"
| "is_dml (InsertValues t names vals) = True"
| "is_dml (DeleteById t rid) = True"
| "is_dml s = False"

text \<open>\<open>cursor.execute\<close>: the first component is the exception raised, if any. A statement
  that fails changes nothing.\<close>

definition execute :: "platform \<Rightarrow> stmt \<Rightarrow> conn \<Rightarrow> sql_error option \<times> conn" where
  "execute P s c =
     (let c1 = c\<lparr>sent := sent c @ [s]\<rparr> in
      if s = Begin then
        (if in_txn c then (Some TransactionState, c1) else (None, c1\<lparr>in_txn := True\<rparr>))
      else if s = Commit then
        (if in_txn c then (None, c1\<lparr>disk := work c, in_txn := False\<rparr>)
         else (Some TransactionState, c1))
      else if s = Rollback then
        (if in_txn c then (None, c1\<lparr>work := disk c, in_txn := False\<rparr>)
         else (Some TransactionState, c1))
      else
        (let c2 = c1\<lparr>in_txn := (in_txn c \<or> is_dml s)\<rparr> in
         case run_stmt P s (work c) of
           Inl e \<Rightarrow> (Some e, c2)
         | Inr d \<Rightarrow> (None, if in_txn c2 then c2\<lparr>work := d\<rparr> else c2\<lparr>work := d, disk := d\<rparr>)))"

text \<open>\<open>conn.commit()\<close> does nothing when no transaction is open.\<close>

definition commit :: "conn \<Rightarrow> conn" where
  "commit c = (if in_txn c then c\<lparr>disk := work c, in_txn := False\<rparr> else c)"

text \<open>Statements run one after the other inside a \<open>try\<close>: the first exception ends the
  block.\<close>

fun exec_all :: "platform \<Rightarrow> stmt list \<Rightarrow> conn \<Rightarrow> sql_error option \<times> conn" where
  "exec_all P [] c = (None, c)"
| "exec_all P (s # ss) c =
     (case execute P s c of
        (Some e, c') \<Rightarrow> (Some e, c')
      | (None, c') \<Rightarrow> exec_all P ss c')"

section \<open>DatabaseTracker\<close>

subsection \<open>The schema registry\<close>

definition expected_schema :: "(string \<times> (string \<times> string) list) list" where
  "expected_schema =
     [(''builds'',
         [(''name'', ''TEXT''), (''manifest_id'', ''TEXT''), (''year'', ''INTEGER''),
          (''season'', ''TEXT''), (''crack_type'', ''TEXT''), (''link'', ''TEXT''),
          (''md5'', ''TEXT''), (''description'', ''TEXT'')]),
      (''tools'',
         [(''name'', ''TEXT''), (''version'', ''TEXT''), (''link'', ''TEXT''),
          (''description'', ''TEXT'')]),
      (''cheats'',
         [(''name'', ''TEXT''), (''type'', ''TEXT''), (''link'', ''TEXT''),
          (''description'', ''TEXT'')]),
      (''downloaders'',
         [(''name'', ''TEXT''), (''link'', ''TEXT''), (''description'', ''TEXT'')]),
      (''preserved'',
         [(''name'', ''TEXT''), (''link'', ''TEXT''), (''description'', ''TEXT'')])]"

definition id_column :: column where
  "id_column = \<lparr>cname = ''id'', ctype = ''INTEGER'', cpk = True, cnotnull = False\<rparr>"

definition plain_column :: "string \<times> string \<Rightarrow> column" where
  "plain_column nt = \<lparr>cname = fst nt, ctype = snd nt, cpk = False, cnotnull = False\<rparr>"

subsection \<open>get_table_columns\<close>

text \<open>
  \<open>PRAGMA table_info\<close> lists the columns of a table and lists nothing for a table that
  does not exist. The method returns the names as a Python set; the model returns them
  in the table's order and every use goes through \<open>set\<close>.
\<close>

definition table_info :: "db \<Rightarrow> string \<Rightarrow> string list" where
  "table_info d t = (case d (lower t) of None \<Rightarrow> [] | Some tb \<Rightarrow> map cname (tcols tb))"

definition get_table_columns :: "platform \<Rightarrow> string \<Rightarrow> world \<Rightarrow> string list \<times> world" where
  "get_table_columns P table_name w =
     (let c = snd (execute P (PragmaTableInfo table_name) (connect w))
      in (table_info (work c) table_name, close c))"

subsection \<open>migrate_table_schema\<close>

definition alias_map :: "(string \<times> string) list" where
  "alias_map =
     [(''manifestid'', ''manifest_id''), (''manifest'', ''manifest_id''),
      (''md5sum'', ''md5''), (''md5hash'', ''md5''), (''crack'', ''crack_type'')]"

text \<open>Python's truth value of \<open>mapped\<close>: \<open>None\<close> and the empty string are false.\<close>

definition truthy :: "string option \<Rightarrow> bool" where
  "truthy m = (case m of None \<Rightarrow> False | Some s \<Rightarrow> s \<noteq> [])"

text \<open>The loop of step 5 over \<open>existing_norm.items()\<close>, which stops at the first hit.\<close>

fun fuzzy_find :: "string \<Rightarrow> (string \<times> string) list \<Rightarrow> string option" where
  "fuzzy_find exp_norm [] = None"
| "fuzzy_find exp_norm ((norm_col, orig_col) # items) =
     (if exp_norm \<noteq> [] \<and> (str_in exp_norm norm_col \<or> str_in norm_col exp_norm)
      then Some orig_col
      else fuzzy_find exp_norm items)"

text \<open>
  The value of \<open>mapped\<close> at the end of one round of the loop over \<open>expected_columns\<close>.
  \<open>existing\<close> is the set of column names of the old table and \<open>existing_list\<close> is
  \<open>list(existing)\<close>.
\<close>

definition mapped_column :: "string list \<Rightarrow> string list \<Rightarrow> string \<Rightarrow> string option" where
  "mapped_column existing existing_list expected_name =
     (let existing_lower = dict_comp lower existing_list;
          existing_norm = dict_comp normalize existing_list
      in if expected_name \<in> set existing then Some expected_name
         else if dict_get existing_lower (lower expected_name) \<noteq> None
           then dict_get existing_lower (lower expected_name)
         else
           (let exp_norm = normalize expected_name
            in if dict_get existing_norm exp_norm \<noteq> None then dict_get existing_norm exp_norm
               else
                 (let mapped =
                        (case dict_get alias_map exp_norm of
                           None \<Rightarrow> None
                         | Some target \<Rightarrow>
                             (let alias_norm = normalize target
                              in if dict_get existing_norm alias_norm \<noteq> None
                                 then dict_get existing_norm alias_norm else None))
                  in if \<not> truthy mapped then
                       (case fuzzy_find exp_norm existing_norm of
                          None \<Rightarrow> mapped
                        | Some orig_col \<Rightarrow> Some orig_col)
                     else mapped)))"

definition select_expr :: "string option \<Rightarrow> sel" where
  "select_expr mapped = (if truthy mapped then SelQuoted (the mapped) else SelNull)"

text \<open>
  The statements of the \<open>try\<close> block, in the order the cursor gets them. Building the
  column mapping raises nothing and touches no state, so the statements are fixed before
  the first one runs. The method writes the expected names and types into the SQL text
  as they are; the model takes them to be plain identifiers and the list of expected
  columns not to be empty, as holds for every list of the registry, the only lists the
  method is called with.
\<close>

definition migration_statements ::
  "string \<Rightarrow> (string \<times> string) list \<Rightarrow> string list \<Rightarrow> string list \<Rightarrow> stmt list" where
  "migration_statements table_name expected_columns existing existing_list =
     (let temp_name = table_name @ ''_old_migrate'';
          select_exprs =
            map (\<lambda>nt. select_expr (mapped_column existing existing_list (fst nt)))
              expected_columns;
          insert_cols = map fst expected_columns
      in [PragmaForeignKeys False,
          Begin,
          AlterRename table_name temp_name,
          CreateTable table_name (id_column # map plain_column expected_columns),
          (if ''id'' \<in> set existing
           then InsertSelect table_name (''id'' # insert_cols) (SelId # select_exprs) temp_name
           else InsertSelect table_name insert_cols select_exprs temp_name),
          DropTable temp_name,
          Commit])"

text \<open>What the method prints at its end.\<close>

datatype outcome = Migrated | MigrationFailed sql_error

definition migrate_table_schema ::
  "platform \<Rightarrow> string \<Rightarrow> (string \<times> string) list \<Rightarrow> world \<Rightarrow> outcome \<times> world" where
  "migrate_table_schema P table_name expected_columns w =
     (let (existing, w1) = get_table_columns P table_name w;
          existing_list = set_order P existing
      in case exec_all P (migration_statements table_name expected_columns existing existing_list)
                (connect w1) of
           (None, c) \<Rightarrow>
             (Migrated, close (snd (execute P (PragmaForeignKeys True) c)))
         | (Some e, c) \<Rightarrow>
             (MigrationFailed e,
              close (snd (execute P (PragmaForeignKeys True) (snd (execute P Rollback c))))))"

subsection \<open>ensure_table_columns\<close>

text \<open>The loop of the additive branch; a failing ALTER TABLE is caught and the loop goes
  on.\<close>

fun add_missing ::
  "platform \<Rightarrow> string \<Rightarrow> string list \<Rightarrow> (string \<times> string) list \<Rightarrow> conn \<Rightarrow> conn" where
  "add_missing P table_name existing [] c = c"
| "add_missing P table_name existing ((col_name, col_type) # rest) c =
     (if col_name \<notin> set existing
      then add_missing P table_name existing rest
             (snd (execute P (AlterAddColumn table_name col_name col_type) c))
      else add_missing P table_name existing rest c)"

definition ensure_table_columns :: "platform \<Rightarrow> string \<Rightarrow> world \<Rightarrow> world" where
  "ensure_table_columns P table_name w =
     (case map_of expected_schema table_name of
        None \<Rightarrow> w
      | Some schema \<Rightarrow>
          (let expected_cols = map fst schema;
               (existing, w1) = get_table_columns P table_name w
           in if set existing = set (''id'' # expected_cols) then w1
              else if set expected_cols \<subseteq> set existing then
                close (commit (add_missing P table_name existing schema (connect w1)))
              else snd (migrate_table_schema P table_name schema w1)))"

subsection \<open>init_database\<close>



subsection \<open>get_table_data, add_record, delete_record\<close>


text \<open>An exception of the INSERT is printed and raised again; the connection is then
  dropped without a commit.\<close>

definition add_record ::
  "platform \<Rightarrow> string \<Rightarrow> val list \<Rightarrow> world \<Rightarrow> (sql_error + bool) \<times> world" where
  "add_record P table_name data w =
     (let c = connect (ensure_table_columns P table_name w);
          (raised, c1) =
            (if table_name = ''builds'' then
               execute P (InsertValues ''builds''
                 [''name'', ''manifest_id'', ''year'', ''season'', ''crack_type'', ''link'',
                  ''md5'', ''description'']
                 (data @ replicate (8 - length data) (TextV []))) c
             else if table_name = ''tools'' then
               execute P (InsertValues ''tools''
                 [''name'', ''version'', ''link'', ''description''] data) c
             else if table_name = ''cheats'' then
               execute P (InsertValues ''cheats''
                 [''name'', ''type'', ''link'', ''description''] data) c
             else if table_name = ''downloaders'' then
               execute P (InsertValues ''downloaders'' [''name'', ''link'', ''description''] data) c
             else if table_name = ''preserved'' then
               execute P (InsertValues ''preserved'' [''name'', ''link'', ''description''] data) c
             else (None, c))
      in case raised of
           Some e \<Rightarrow> (Inl e, close c1)
         | None \<Rightarrow> (Inr True, close (commit c1)))"

definition delete_record ::
  "platform \<Rightarrow> string \<Rightarrow> val \<Rightarrow> world \<Rightarrow> sql_error option \<times> world" where
  "delete_record P table_name record_id w =
     (case execute P (DeleteById table_name record_id) (connect w) of
        (Some e, c) \<Rightarrow> (Some e, close c)
      | (None, c) \<Rightarrow> (None, close (commit c)))"

section \<open>Example databases\<close>

text \<open>
  Concrete inputs on which the theorems below are run. \<open>plain_platform\<close> stores values
  as given, which is what SQLite does with text in a TEXT column and with an integer in
  an INTEGER column, and enumerates a set in the order of the table's columns.
\<close>

definition plain_platform :: platform where
  "plain_platform = \<lparr>affinity = (\<lambda>t v. v), set_order = (\<lambda>xs. xs)\<rparr>"


definition text_column :: "string \<Rightarrow> column" where
  "text_column n = \<lparr>cname = n, ctype = ''TEXT'', cpk = False, cnotnull = False\<rparr>"

text \<open>A \<open>tools\<close> table that has every expected column and one more.\<close>

definition extended_world :: world where
  "extended_world =
     \<lparr>store = (\<lambda>t. None)(''tools'' \<mapsto>
        \<lparr>tcols = [id_column, text_column ''name'', text_column ''version'',
                  text_column ''link'', text_column ''description'', text_column ''notes''],
         trows = [[IntV 1, TextV ''hex'', TextV ''2.1'', Null, Null, TextV ''keep'']],
         tseq = 1\<rparr>),
      trace = []\<rparr>"

text \<open>Reading a world: the table a name stands for and the number of its rows.\<close>

definition table_of :: "world \<Rightarrow> string \<Rightarrow> table option" where
  "table_of w t = store w (lower t)"

definition row_count :: "world \<Rightarrow> string \<Rightarrow> nat" where
  "row_count w t = (case table_of w t of None \<Rightarrow> 0 | Some tb \<Rightarrow> length (trows tb))"

definition rows_of :: "world \<Rightarrow> string \<Rightarrow> val list list" where
  "rows_of w t = (case table_of w t of None \<Rightarrow> [] | Some tb \<Rightarrow> trows tb)"

text \<open>A \<open>tools\<close> table of an older layout: \<open>Name\<close> is capitalised, the version is called
  \<open>ver\<close>, and \<open>link\<close> and \<open>description\<close> are missing.\<close>

definition legacy_tools :: table where
  "legacy_tools =
     \<lparr>tcols = [id_column, text_column ''Name'', text_column ''ver''],
      trows = [[IntV 3, TextV ''hex'', TextV ''2.1''], [IntV 7, TextV ''dump'', Null]],
      tseq = 7\<rparr>"

definition legacy_world :: world where
  "legacy_world = \<lparr>store = (\<lambda>t. None)(''tools'' \<mapsto> legacy_tools), trace = []\<rparr>"

text \<open>A \<open>tools\<close> table made by another program: its \<open>id\<close> is an ordinary column, not a
  primary key, so ids may repeat or be NULL.\<close>

definition loose_id_column :: column where
  "loose_id_column = \<lparr>cname = ''id'', ctype = ''INTEGER'', cpk = False, cnotnull = False\<rparr>"

definition clashing_world :: world where
  "clashing_world =
     \<lparr>store = (\<lambda>t. None)(''tools'' \<mapsto>
        \<lparr>tcols = [loose_id_column, text_column ''title''],
         trows = [[IntV 1, TextV ''hex''], [IntV 1, TextV ''dump'']],
         tseq = 0\<rparr>),
      trace = []\<rparr>"


definition tools_schema :: "(string \<times> string) list" where
  "tools_schema =
     [(''name'', ''TEXT''), (''version'', ''TEXT''), (''link'', ''TEXT''),
      (''description'', ''TEXT'')]"

section \<open>The matching strategies, as the specification words them\<close>











section \<open>Connections and the trace\<close>

lemma schema_unknown:
  "table_name \<notin> {''builds'', ''tools'', ''cheats'', ''downloaders'', ''preserved''} \<Longrightarrow>
   map_of expected_schema table_name = None"
  by (simp add: expected_schema_def)

lemma close_connect: "close (connect w) = w"
  by (simp add: close_def connect_def)

lemma commit_connect: "commit (connect w) = connect w"
  by (simp add: commit_def connect_def)

lemma execute_sent: "sent (snd (execute P s c)) = sent c @ [s]"
  by (simp add: execute_def Let_def split: sum.splits)

lemma get_table_columns_eq:
  "get_table_columns P t w =
     (table_info (store w) t, w\<lparr>trace := trace w @ [PragmaTableInfo t]\<rparr>)"
  by (simp add: get_table_columns_def execute_def connect_def close_def Let_def)


lemma add_missing_none:
  "set (map fst schema) \<subseteq> set existing \<Longrightarrow> add_missing P t existing schema c = c"
  by (induction schema arbitrary: c) auto

lemma lower_tools: "lower ''tools'' = ''tools''"
  by (simp add: lower_def lower_char_def is_upper_def)

lemma schema_tools:
  "map_of expected_schema ''tools'' =
     Some [(''name'', ''TEXT''), (''version'', ''TEXT''), (''link'', ''TEXT''),
           (''description'', ''TEXT'')]"
  by (simp add: expected_schema_def)

lemma extended_info:
  "table_info (store extended_world) ''tools'' =
     [''id'', ''name'', ''version'', ''link'', ''description'', ''notes'']"
  by (simp add: table_info_def extended_world_def lower_tools id_column_def text_column_def)

lemma extended_not_exact:
  "set (table_info (store extended_world) ''tools'')
     \<noteq> set (''id'' # map fst [(''name'', ''TEXT''), (''version'', ''TEXT''),
            (''link'', ''TEXT''), (''description'', ''TEXT'')])"
proof
  assume eq: "set (table_info (store extended_world) ''tools'')
     = set (''id'' # map fst [(''name'', ''TEXT''), (''version'', ''TEXT''),
            (''link'', ''TEXT''), (''description'', ''TEXT'')])"
  have "''notes'' \<in> set (table_info (store extended_world) ''tools'')"
    by (simp add: extended_info)
  then have "''notes'' \<in> set (''id'' # map fst [(''name'', ''TEXT''), (''version'', ''TEXT''),
            (''link'', ''TEXT''), (''description'', ''TEXT'')])"
    by (simp only: eq)
  then show False by simp
qed

lemma extended_superset:
  "set (map fst [(''name'', ''TEXT''), (''version'', ''TEXT''),
          (''link'', ''TEXT''), (''description'', ''TEXT'')])
     \<subseteq> set (table_info (store extended_world) ''tools'')"
  by (simp add: extended_info)

section \<open>ensure_table_columns\<close>

text \<open>
  Claim C10. Called with a table name that is not a key of the schema registry,
  \<open>ensure_table_columns\<close> returns at once: the database file is the same and no
  statement, not even the read of the table's columns, has been executed (the trace is
  the same).
\<close>

theorem ensure_table_columns_unknown_table:
  assumes "table_name \<notin> {''builds'', ''tools'', ''cheats'', ''downloaders'', ''preserved''}"
  shows "ensure_table_columns P table_name w = w"
  using schema_unknown [OF assms] by (simp add: ensure_table_columns_def)

theorem ensure_table_columns_unknown_table_witness:
  "''users'' \<notin> {''builds'', ''tools'', ''cheats'', ''downloaders'', ''preserved''}
   \<and> ensure_table_columns plain_platform ''users'' extended_world = extended_world"
  using ensure_table_columns_unknown_table [of "''users''" plain_platform extended_world]
  by simp



text \<open>
  Claim C5. On the additive branch of \<open>ensure_table_columns\<close> the database file is left
  as it was: every table, hence every row and every value of every column that existed
  before, is unchanged.
\<close>

theorem ensure_table_columns_additive_preserves:
  assumes "map_of expected_schema table_name = Some schema"
    and "set (map fst schema) \<subseteq> set (table_info (store w) table_name)"
    and "set (table_info (store w) table_name) \<noteq> set (''id'' # map fst schema)"
  shows "store (ensure_table_columns P table_name w) = store w"
proof -
  let ?w1 = "w\<lparr>trace := trace w @ [PragmaTableInfo table_name]\<rparr>"
  let ?ex = "table_info (store w) table_name"
  have "ensure_table_columns P table_name w =
        close (commit (add_missing P table_name ?ex schema (connect ?w1)))"
    using assms by (simp add: ensure_table_columns_def get_table_columns_eq)
  moreover have "add_missing P table_name ?ex schema (connect ?w1) = connect ?w1"
    using assms(2) by (rule add_missing_none)
  ultimately show ?thesis
    by (simp add: commit_connect close_connect)
qed

theorem ensure_table_columns_additive_preserves_witness:
  "set [''name'', ''version'', ''link'', ''description'']
        \<subseteq> set (table_info (store extended_world) ''tools'')
   \<and> set (table_info (store extended_world) ''tools'')
        \<noteq> set [''id'', ''name'', ''version'', ''link'', ''description'']
   \<and> store (ensure_table_columns plain_platform ''tools'' extended_world) =
        store extended_world"
proof -
  show ?thesis
    using ensure_table_columns_additive_preserves
            [OF schema_tools extended_superset extended_not_exact, of plain_platform]
      extended_not_exact extended_superset
    by simp
qed

section \<open>add_record on a table outside the catalog\<close>

text \<open>
  Claim C8. For a table name other than \<open>builds\<close>, \<open>tools\<close>, \<open>cheats\<close>,
  \<open>downloaders\<close> and \<open>preserved\<close>, \<open>add_record\<close> raises nothing and returns \<open>True\<close>;
  the database file is unchanged and no statement has been executed, so no INSERT.
\<close>

theorem add_record_unknown_table:
  assumes "table_name \<notin> {''builds'', ''tools'', ''cheats'', ''downloaders'', ''preserved''}"
  shows "add_record P table_name data w = (Inr True, w)"
proof -
  have "ensure_table_columns P table_name w = w"
    using schema_unknown [OF assms] by (simp add: ensure_table_columns_def)
  then show ?thesis
    using assms by (simp add: add_record_def commit_connect close_connect)
qed

theorem add_record_unknown_table_witness:
  "''users'' \<notin> {''builds'', ''tools'', ''cheats'', ''downloaders'', ''preserved''}
   \<and> add_record plain_platform ''users'' [TextV ''ann''] extended_world =
       (Inr True, extended_world)"
  using add_record_unknown_table [of "''users''" plain_platform "[TextV ''ann'']" extended_world]
  by simp

section \<open>delete_record\<close>

lemma legacy_table: "store legacy_world (lower ''tools'') = Some legacy_tools"
  by (simp add: legacy_world_def lower_tools)

lemma legacy_id_index: "col_index ''id'' (tcols legacy_tools) = Some 0"
  by (simp add: legacy_tools_def id_column_def)

text \<open>
  Claim C7, as amended. On a table that has an \<open>id\<close> column, \<open>delete_record\<close> raises
  nothing, leaves every other table alone, keeps the table's columns and removes exactly
  the rows whose id equals the record id, keeping all other rows in their order. So the
  table loses as many rows as have that id: one when exactly one row has it, none when no
  row has it.
\<close>

theorem delete_record_removes_matching:
  assumes "store w (lower table_name) = Some tb"
    and "col_index ''id'' (tcols tb) = Some i"
    and "key = affinity P (ctype (tcols tb ! i)) record_id"
    and "w' = snd (delete_record P table_name record_id w)"
  shows "fst (delete_record P table_name record_id w) = None
    \<and> (\<forall>t. t \<noteq> lower table_name \<longrightarrow> store w' t = store w t)
    \<and> (\<exists>tb'. store w' (lower table_name) = Some tb' \<and> tcols tb' = tcols tb
          \<and> trows tb' = filter (\<lambda>r. \<not> sql_eq (cell r i) key) (trows tb))
    \<and> row_count w' table_name + length (filter (\<lambda>r. sql_eq (cell r i) key) (trows tb))
        = row_count w table_name"
proof -
  let ?tb' = "tb\<lparr>trows := filter (\<lambda>r. \<not> sql_eq (cell r i) key) (trows tb)\<rparr>"
  have del: "delete_record P table_name record_id w =
        (None, \<lparr>store = (store w)(lower table_name \<mapsto> ?tb'),
                trace = trace w @ [DeleteById table_name record_id]\<rparr>)"
    using assms(1,2,3)
    by (simp add: delete_record_def execute_def connect_def with_table_def commit_def close_def)
  have cnt: "length (filter (\<lambda>r. \<not> sql_eq (cell r i) key) (trows tb))
               + length (filter (\<lambda>r. sql_eq (cell r i) key) (trows tb)) = length (trows tb)"
    using sum_length_filter_compl [of "\<lambda>r. sql_eq (cell r i) key" "trows tb"] by simp
  show ?thesis
    using assms(1,4) cnt by (simp add: del row_count_def table_of_def)
qed

theorem delete_record_removes_matching_witness:
  "store legacy_world (lower ''tools'') = Some legacy_tools
   \<and> col_index ''id'' (tcols legacy_tools) = Some 0
   \<and> fst (delete_record plain_platform ''tools'' (IntV 3) legacy_world) = None
   \<and> rows_of (snd (delete_record plain_platform ''tools'' (IntV 3) legacy_world)) ''tools''
        = [[IntV 7, TextV ''dump'', Null]]
   \<and> row_count (snd (delete_record plain_platform ''tools'' (IntV 3) legacy_world)) ''tools'' + 1
        = row_count legacy_world ''tools''"
proof -
  have k: "IntV 3 = affinity plain_platform (ctype (tcols legacy_tools ! 0)) (IntV 3)"
    by (simp add: plain_platform_def)
  have f: "filter (\<lambda>r. \<not> sql_eq (cell r 0) (IntV 3)) (trows legacy_tools)
             = [[IntV 7, TextV ''dump'', Null]]"
    by (simp add: legacy_tools_def sql_eq_def cell_def)
  have g: "length (filter (\<lambda>r. sql_eq (cell r 0) (IntV 3)) (trows legacy_tools)) = 1"
    by (simp add: legacy_tools_def sql_eq_def cell_def)
  show ?thesis
    using delete_record_removes_matching [OF legacy_table legacy_id_index k refl]
    by (auto simp: legacy_table legacy_id_index f g rows_of_def table_of_def)
qed

text \<open>
  The claim as stated fails when no row has the given id: deleting id 4 from a table whose
  rows have the ids 3 and 7 raises nothing and removes no row.
\<close>

theorem delete_record_absent_id_counterexample:
  "fst (delete_record plain_platform ''tools'' (IntV 4) legacy_world) = None
   \<and> row_count legacy_world ''tools'' = 2
   \<and> row_count (snd (delete_record plain_platform ''tools'' (IntV 4) legacy_world)) ''tools'' = 2"
  by code_simp

section \<open>The rebuild runs in one transaction\<close>

lemma exec_all_append:
  "exec_all P (ss @ ts) c =
     (case exec_all P ss c of (Some e, c') \<Rightarrow> (Some e, c') | (None, c') \<Rightarrow> exec_all P ts c')"
  by (induction ss arbitrary: c) (auto split: prod.splits option.splits)

lemma exec_all_sent:
  "exec_all P ss c = (None, c') \<Longrightarrow> sent c' = sent c @ ss"
proof (induction ss arbitrary: c)
  case Nil
  then show ?case by simp
next
  case (Cons s ss)
  obtain r c1 where e: "execute P s c = (r, c1)" by (cases "execute P s c")
  with Cons.prems have r: "r = None" and rest: "exec_all P ss c1 = (None, c')"
    by (auto split: option.splits)
  have "sent c1 = sent c @ [s]" using execute_sent [of P s c] e by simp
  with Cons.IH [OF rest] show ?case by simp
qed

lemma execute_in_txn:
  assumes "in_txn c" and "s \<noteq> Commit" and "s \<noteq> Rollback"
  shows "disk (snd (execute P s c)) = disk c \<and> in_txn (snd (execute P s c))"
  using assms by (simp add: execute_def Let_def split: sum.splits)

lemma exec_all_in_txn:
  assumes "in_txn c" and "Commit \<notin> set ss" and "Rollback \<notin> set ss"
  shows "disk (snd (exec_all P ss c)) = disk c \<and> in_txn (snd (exec_all P ss c))"
  using assms
proof (induction ss arbitrary: c)
  case Nil
  then show ?case by simp
next
  case (Cons s ss)
  obtain r c1 where e: "execute P s c = (r, c1)" by (cases "execute P s c")
  have "s \<noteq> Commit" "s \<noteq> Rollback"
    using Cons.prems by auto
  then have k: "disk c1 = disk c \<and> in_txn c1"
    using execute_in_txn [of c s P] Cons.prems(1) e by simp
  show ?case
  proof (cases r)
    case None
    with Cons.IH [of c1] Cons.prems k e show ?thesis by simp
  next
    case (Some err)
    with k e show ?thesis by simp
  qed
qed

lemma execute_commit_in_txn:
  "in_txn c \<Longrightarrow> fst (execute P Commit c) = None"
  by (simp add: execute_def)

text \<open>A transaction that opens right after connecting and commits only as its last
  statement: when it fails, the file is as it was and the transaction is still open.\<close>

lemma failed_transaction:
  assumes "exec_all P (PragmaForeignKeys False # Begin # body @ [Commit]) (connect w) = (Some e, c)"
    and "Commit \<notin> set body" and "Rollback \<notin> set body"
  shows "disk c = store w \<and> in_txn c"
proof -
  let ?c2 = "(connect w)\<lparr>sent := trace w @ [PragmaForeignKeys False, Begin], in_txn := True\<rparr>"
  have start: "exec_all P (PragmaForeignKeys False # Begin # body @ [Commit]) (connect w)
               = exec_all P (body @ [Commit]) ?c2"
    by (simp add: execute_def connect_def)
  obtain r c3 where b: "exec_all P body ?c2 = (r, c3)" by (cases "exec_all P body ?c2")
  have k: "disk c3 = store w \<and> in_txn c3"
    using exec_all_in_txn [of ?c2 body P] assms(2,3) b by (simp add: connect_def)
  show ?thesis
  proof (cases r)
    case None
    obtain r4 c4 where cm: "execute P Commit c3 = (r4, c4)" by (cases "execute P Commit c3")
    have "r4 = None" using execute_commit_in_txn [of c3 P] k cm by simp
    with assms(1) start b None cm show ?thesis
      by (simp add: exec_all_append)
  next
    case (Some err)
    with assms(1) start b have "c = c3" by (simp add: exec_all_append)
    with k show ?thesis by simp
  qed
qed

lemma migration_statements_shape:
  "\<exists>cols names sels.
     migration_statements t ex existing elist =
       PragmaForeignKeys False # Begin #
         [AlterRename t (t @ ''_old_migrate''), CreateTable t cols,
          InsertSelect t names sels (t @ ''_old_migrate''), DropTable (t @ ''_old_migrate'')]
         @ [Commit]"
  by (simp add: migration_statements_def Let_def)

text \<open>
  Claim C4. \<open>migrate_table_schema\<close> either reports success, and then it has executed,
  after reading the columns, exactly BEGIN, the rename, the create, the copy, the drop and
  COMMIT in this order (between switching foreign keys off and on): one transaction
  around the four steps; or it reports a failure, and then the database file is exactly
  as it was before the call, the last statements executed being ROLLBACK and the switch
  of foreign keys.
\<close>

theorem migrate_table_schema_atomic:
  assumes "migrate_table_schema P table_name expected_columns w = (r, w')"
  shows "(r = Migrated \<longrightarrow>
            (\<exists>cols names sels.
               trace w' = trace w @
                 [PragmaTableInfo table_name, PragmaForeignKeys False, Begin,
                  AlterRename table_name (table_name @ ''_old_migrate''),
                  CreateTable table_name cols,
                  InsertSelect table_name names sels (table_name @ ''_old_migrate''),
                  DropTable (table_name @ ''_old_migrate''),
                  Commit, PragmaForeignKeys True]))
       \<and> (r \<noteq> Migrated \<longrightarrow>
            store w' = store w
            \<and> (\<exists>ss. trace w' = trace w @ ss @ [Rollback, PragmaForeignKeys True]))"
proof -
  let ?w1 = "w\<lparr>trace := trace w @ [PragmaTableInfo table_name]\<rparr>"
  let ?ex = "table_info (store w) table_name"
  let ?ss = "migration_statements table_name expected_columns ?ex (set_order P ?ex)"
  obtain cols names sels where shape:
    "?ss = PragmaForeignKeys False # Begin #
         [AlterRename table_name (table_name @ ''_old_migrate''), CreateTable table_name cols,
          InsertSelect table_name names sels (table_name @ ''_old_migrate''),
          DropTable (table_name @ ''_old_migrate'')] @ [Commit]"
    using migration_statements_shape by blast
  obtain x c where run: "exec_all P ?ss (connect ?w1) = (x, c)"
    by (cases "exec_all P ?ss (connect ?w1)")
  show ?thesis
  proof (cases x)
    case None
    have s: "sent c = sent (connect ?w1) @ ?ss"
      using exec_all_sent run None by blast
    have res: "r = Migrated" "w' = close (snd (execute P (PragmaForeignKeys True) c))"
      using assms run None by (simp_all add: migrate_table_schema_def get_table_columns_eq)
    have "trace w' = sent c @ [PragmaForeignKeys True]"
      by (simp add: res close_def execute_sent)
    then have "trace w' = trace w @
                 [PragmaTableInfo table_name, PragmaForeignKeys False, Begin,
                  AlterRename table_name (table_name @ ''_old_migrate''),
                  CreateTable table_name cols,
                  InsertSelect table_name names sels (table_name @ ''_old_migrate''),
                  DropTable (table_name @ ''_old_migrate''),
                  Commit, PragmaForeignKeys True]"
      by (simp add: s shape connect_def)
    with res show ?thesis by blast
  next
    case (Some e)
    have res: "r = MigrationFailed e"
      "w' = close (snd (execute P (PragmaForeignKeys True) (snd (execute P Rollback c))))"
      using assms run Some by (simp_all add: migrate_table_schema_def get_table_columns_eq)
    have run': "exec_all P (PragmaForeignKeys False # Begin #
         [AlterRename table_name (table_name @ ''_old_migrate''), CreateTable table_name cols,
          InsertSelect table_name names sels (table_name @ ''_old_migrate''),
          DropTable (table_name @ ''_old_migrate'')] @ [Commit]) (connect ?w1) = (Some e, c)"
      unfolding shape [symmetric] using run Some by (simp only:)
    have "disk c = store ?w1 \<and> in_txn c"
      by (rule failed_transaction [OF run']) simp_all
    then have k: "disk c = store w \<and> in_txn c"
      by simp
    have st: "store w' = store w"
      using k by (simp add: res close_def execute_def)
    have "trace w' = sent c @ [Rollback, PragmaForeignKeys True]"
      by (simp add: res close_def execute_sent)
    moreover have "\<exists>ss. sent c = trace w @ ss"
    proof -
      have "\<exists>ss. sent (snd (exec_all P ts c0)) = sent c0 @ ss" for ts c0
      proof (induction ts arbitrary: c0)
        case Nil
        then show ?case by simp
      next
        case (Cons t ts)
        obtain y c1 where e1: "execute P t c0 = (y, c1)" by (cases "execute P t c0")
        have s1: "sent c1 = sent c0 @ [t]" using execute_sent [of P t c0] e1 by simp
        show ?case
        proof (cases y)
          case None
          with Cons.IH [of c1] e1 s1 show ?thesis by auto
        next
          case (Some a)
          with e1 s1 show ?thesis by simp
        qed
      qed
      from this [of ?ss "connect ?w1"] run show ?thesis
        by (auto simp: connect_def)
    qed
    ultimately have "\<exists>ss. trace w' = trace w @ ss @ [Rollback, PragmaForeignKeys True]"
      by auto
    with res st show ?thesis by simp
  qed
qed

lemma clashing_fails:
  "fst (migrate_table_schema plain_platform ''tools'' tools_schema clashing_world)
     = MigrationFailed ConstraintFailed"
  by code_simp


theorem migrate_table_schema_atomic_witness:
  "fst (migrate_table_schema plain_platform ''tools'' tools_schema clashing_world)
     = MigrationFailed ConstraintFailed
   \<and> store (snd (migrate_table_schema plain_platform ''tools'' tools_schema clashing_world))
     = store clashing_world"
proof -
  have eq: "migrate_table_schema plain_platform ''tools'' tools_schema clashing_world =
      (fst (migrate_table_schema plain_platform ''tools'' tools_schema clashing_world),
       snd (migrate_table_schema plain_platform ''tools'' tools_schema clashing_world))"
    by simp
  show ?thesis
    using migrate_table_schema_atomic [OF eq] clashing_fails by simp
qed

section \<open>Column matching\<close>
















section \<open>Rows written by INSERT\<close>







section \<open>The rows of a rebuilt table\<close>















section \<open>Record ids across a rebuild\<close>




section \<open>Insert, then read\<close>

















end
